theory Spec2Isabelle
  imports Main "HOL-Library.Word"
begin

section \<open>JavaScript values\<close>

text \<open>
  A JavaScript string is a sequence of 16-bit code units. String literals of the source
  are written through \<open>ascii\<close>.
\<close>

type_synonym jstring = "16 word list"

definition ascii :: "string \<Rightarrow> jstring" where
  "ascii s = map of_char s"

text \<open>
  The values the client handles: \<open>undefined\<close>, \<open>null\<close> and what \<open>JSON.parse\<close> yields.
  \<open>JNum n\<close> is the integral number \<open>n\<close> (magnitude below \<open>2 ^ 53\<close>, where the string form
  of a number is its decimal numeral); \<open>JObj\<close> lists the own properties of a parsed object
  in insertion order, each key once.
\<close>

datatype jsval =
    JUndefined
  | JNull
  | JBool bool
  | JNum int
  | JStr jstring
  | JArr "jsval list"
  | JObj "(jstring \<times> jsval) list"

text \<open>Truthiness, as tested by \<open>!x\<close>, \<open>x || y\<close>, \<open>x && y\<close> and \<open>if (x)\<close>.\<close>

fun truthy :: "jsval \<Rightarrow> bool" where
  "truthy JUndefined = False"
| "truthy JNull = False"
| "truthy (JBool b) = b"
| "truthy (JNum n) = (n \<noteq> 0)"
| "truthy (JStr s) = (s \<noteq> [])"
| "truthy (JArr xs) = True"
| "truthy (JObj kvs) = True"

text \<open>\<open>a || b\<close>\<close>

definition js_or :: "jsval \<Rightarrow> jsval \<Rightarrow> jsval" where
  "js_or a b = (if truthy a then a else b)"

text \<open>
  \<open>a === b\<close>. Objects and arrays are compared by reference; every object the client
  compares is the result of a separate parse, so two of them are never identical.
\<close>

fun strict_eq :: "jsval \<Rightarrow> jsval \<Rightarrow> bool" where
  "strict_eq JUndefined JUndefined = True"
| "strict_eq JNull JNull = True"
| "strict_eq (JBool a) (JBool b) = (a = b)"
| "strict_eq (JNum a) (JNum b) = (a = b)"
| "strict_eq (JStr a) (JStr b) = (a = b)"
| "strict_eq a b = False"


text \<open>The decimal numeral of a natural number.\<close>

fun dec :: "nat \<Rightarrow> jstring" where
  "dec n = (if n < 10 then [of_nat (48 + n)] else dec (n div 10) @ [of_nat (48 + n mod 10)])"

declare dec.simps [simp del]

fun join_comma :: "jstring list \<Rightarrow> jstring" where
  "join_comma [] = []"
| "join_comma [s] = s"
| "join_comma (s # t # ss) = s @ ascii '','' @ join_comma (t # ss)"

text \<open>
  \<open>String(x)\<close>, which is also the conversion applied by template literals, by
  \<open>new Error(x)\<close>, by \<open>localStorage.setItem\<close> and to header values.
\<close>

fun to_string :: "jsval \<Rightarrow> jstring" where
  "to_string JUndefined = ascii ''undefined''"
| "to_string JNull = ascii ''null''"
| "to_string (JBool b) = (if b then ascii ''true'' else ascii ''false'')"
| "to_string (JNum n) = (if n < 0 then ascii ''-'' @ dec (nat (- n)) else dec (nat n))"
| "to_string (JStr s) = s"
| "to_string (JArr xs) =
     join_comma (map (\<lambda>x. if x = JNull \<or> x = JUndefined then [] else to_string x) xs)"
| "to_string (JObj kvs) = ascii ''[object Object]''"

subsection \<open>Thrown errors\<close>

text \<open>An error object, with its \<open>name\<close> and its \<open>message\<close>.\<close>

datatype js_error = Thrown (name: jstring) (message: jstring)

text \<open>\<open>new Error(x)\<close> for an \<open>x\<close> that is not \<open>undefined\<close>.\<close>

definition new_Error :: "jsval \<Rightarrow> js_error" where
  "new_Error x = Thrown (ascii ''Error'') (to_string x)"

text \<open>
  Reading a property of \<open>null\<close> or \<open>undefined\<close> throws a \<open>TypeError\<close>; the wording of its
  message is the engine's (here V8's).
\<close>

definition null_read :: "jsval \<Rightarrow> jstring \<Rightarrow> js_error" where
  "null_read v k =
     Thrown (ascii ''TypeError'')
       (ascii ''Cannot read properties of '' @ to_string v @ ascii '' (reading '' @ [0x27] @ k
          @ [0x27] @ ascii '')'')"

text \<open>
  \<open>v.k\<close>, for the keys the client reads (\<open>error\<close>, \<open>conversation_id\<close>, \<open>tool_output\<close>,
  \<open>final_answer\<close>, \<open>emails\<close>, \<open>free_slots\<close>, \<open>created\<close>, and the fields of an email, a
  slot and an event): none of them is a built-in property of an object, string, number,
  boolean or array, so the result is the own property of an object, and \<open>undefined\<close>
  where there is none.
\<close>

fun get_prop :: "jsval \<Rightarrow> jstring \<Rightarrow> js_error + jsval" where
  "get_prop JUndefined k = Inl (null_read JUndefined k)"
| "get_prop JNull k = Inl (null_read JNull k)"
| "get_prop (JObj kvs) k = Inr (case map_of kvs k of None \<Rightarrow> JUndefined | Some v \<Rightarrow> v)"
| "get_prop v k = Inr JUndefined"

text \<open>\<open>v?.k\<close>: \<open>undefined\<close> where \<open>v\<close> is \<open>null\<close> or \<open>undefined\<close>.\<close>

definition opt_chain :: "jsval \<Rightarrow> jstring \<Rightarrow> jsval" where
  "opt_chain v k = (case get_prop v k of Inl e \<Rightarrow> JUndefined | Inr x \<Rightarrow> x)"

section \<open>The HTTP boundary\<close>

datatype http_method = GET | POST | DELETE

text \<open>
  A request as handed to \<open>fetch\<close>. \<open>req_body\<close> is the value whose JSON text
  (\<open>JSON.stringify\<close>) is the body, when there is one.
\<close>

record request =
  req_url :: jstring
  req_method :: http_method
  req_headers :: "(jstring \<times> jstring) list"
  req_body :: "jsval option"

text \<open>
  A response: its status line, and the result of \<open>res.json()\<close>, which parses the body
  and rejects when the body is not JSON.
\<close>

record response =
  status :: nat
  statusText :: jstring
  json :: "js_error + jsval"

text \<open>\<open>res.ok\<close>: the status is in the range 200 to 299.\<close>

definition ok :: "response \<Rightarrow> bool" where
  "ok r = (200 \<le> status r \<and> status r \<le> 299)"

text \<open>
  What the network gives for a request handed to it: a failure, with which \<open>fetch\<close>
  rejects (no response at all), or a response.
\<close>

datatype fetch_outcome = Rejected js_error | Resolved response

subsection \<open>Header values\<close>

text \<open>
  \<open>fetch\<close> builds the headers of a request from the object it is given. Each value is
  converted to a byte string, which fails when a code unit is above 255; leading and
  trailing HTTP whitespace (tab, line feed, carriage return, space) is stripped from it;
  and what remains must contain no NUL, line feed or carriage return.
\<close>

definition http_ws :: "16 word \<Rightarrow> bool" where
  "http_ws c = (c \<in> {0x9, 0xA, 0xD, 0x20})"

definition normalize_value :: "jstring \<Rightarrow> jstring" where
  "normalize_value v = rev (dropWhile http_ws (rev (dropWhile http_ws v)))"

definition header_value_ok :: "jstring \<Rightarrow> bool" where
  "header_value_ok v =
     (list_all (\<lambda>c. c \<le> 0xFF) v
      \<and> list_all (\<lambda>c. c \<notin> {0x0, 0xA, 0xD}) (normalize_value v))"

text \<open>Whether a value begins or ends with HTTP whitespace, which is stripped.\<close>

fun starts_blank :: "jstring \<Rightarrow> bool" where
  "starts_blank [] = False"
| "starts_blank (c # cs) = http_ws c"

definition padded :: "jstring \<Rightarrow> bool" where
  "padded v = (starts_blank v \<or> starts_blank (rev v))"

text \<open>The request with its header values as they are sent.\<close>

definition normalized :: "request \<Rightarrow> request" where
  "normalized req =
     req\<lparr> req_headers := map (\<lambda>(k, v). (k, normalize_value v)) (req_headers req) \<rparr>"

text \<open>
  The \<open>TypeError\<close> with which \<open>fetch\<close> rejects for a header value that is not valid;
  the wording of its message is the engine's.
\<close>

definition refused :: js_error where
  "refused = Thrown (ascii ''TypeError'') (ascii ''Invalid header value'')"

subsection \<open>\<open>fetch\<close>\<close>

text \<open>
  \<open>fetch\<close> refuses a request that has a header value which is not valid: it rejects with
  a \<open>TypeError\<close> and nothing is sent. Otherwise it hands the request, its header values
  normalised, to the network, which the log of requests issued records, and yields the
  outcome the network gives. (The header names are literals of the source and valid; the
  URL of every request is \<open>API_BASE\<close>, the absolute URL the client is built with,
  followed by a path, and parses.)
\<close>

definition fetch :: "request \<Rightarrow> fetch_outcome \<Rightarrow> request list \<Rightarrow> request list \<times> fetch_outcome" where
  "fetch req outcome log =
     (if list_all (\<lambda>(k, v). header_value_ok v) (req_headers req)
      then (log @ [normalized req], outcome)
      else (log, Rejected refused))"

section \<open>api.jsx\<close>

text \<open>\<open>const API_BASE = import.meta.env.VITE_API_BASE || "http://localhost:8000"\<close>\<close>

definition API_BASE :: "jsval \<Rightarrow> jstring" where
  "API_BASE vite = to_string (js_or vite (JStr (ascii ''http://localhost:8000'')))"

definition plan_request :: "jstring \<Rightarrow> jstring \<Rightarrow> jsval \<Rightarrow> request" where
  "plan_request base user_input conversationId =
     \<lparr> req_url = base @ ascii ''/plan'',
       req_method = POST,
       req_headers =
         [(ascii ''Content-Type'', ascii ''application/json''),
          (ascii ''X-Conversation-Id'', to_string (js_or conversationId (JStr [])))],
       req_body = Some (JObj [(ascii ''user_input'', JStr user_input)]) \<rparr>"

text \<open>
  \<open>plan(user_input, conversationId)\<close>: the log of requests after the call, and the
  envelope returned (\<open>Inr\<close>) or the error raised (\<open>Inl\<close>).
\<close>

definition plan ::
  "jstring \<Rightarrow> jstring \<Rightarrow> jsval \<Rightarrow> fetch_outcome \<Rightarrow> request list
     \<Rightarrow> request list \<times> (js_error + jsval)" where
  "plan base user_input conversationId outcome log =
     (case fetch (plan_request base user_input conversationId) outcome log of
        (log', Rejected e) \<Rightarrow> (log', Inl e)
      | (log', Resolved res) \<Rightarrow>
          (case json res of
             Inl e \<Rightarrow> (log', Inl e)
           | Inr data \<Rightarrow>
               if \<not> ok res then
                 (case get_prop data (ascii ''error'') of
                    Inl e \<Rightarrow> (log', Inl e)
                  | Inr msg \<Rightarrow> (log', Inl (new_Error (js_or msg (JStr (statusText res))))))
               else (log', Inr data)))"

text \<open>The history endpoints: each sends one request and returns \<open>r.json()\<close>.\<close>

definition json_of :: "fetch_outcome \<Rightarrow> js_error + jsval" where
  "json_of outcome = (case outcome of Rejected e \<Rightarrow> Inl e | Resolved r \<Rightarrow> json r)"

definition get_request :: "jstring \<Rightarrow> request" where
  "get_request u = \<lparr> req_url = u, req_method = GET, req_headers = [], req_body = None \<rparr>"

definition listConversations ::
  "jstring \<Rightarrow> fetch_outcome \<Rightarrow> request list \<Rightarrow> request list \<times> (js_error + jsval)" where
  "listConversations base outcome log =
     (case fetch (get_request (base @ ascii ''/conversations'')) outcome log of
        (log', out) \<Rightarrow> (log', json_of out))"

definition getConversation ::
  "jstring \<Rightarrow> jsval \<Rightarrow> fetch_outcome \<Rightarrow> request list \<Rightarrow> request list \<times> (js_error + jsval)" where
  "getConversation base cid outcome log =
     (case fetch (get_request (base @ ascii ''/conversations/'' @ to_string cid)) outcome log of
        (log', out) \<Rightarrow> (log', json_of out))"

definition deleteConversation ::
  "jstring \<Rightarrow> jsval \<Rightarrow> fetch_outcome \<Rightarrow> request list \<Rightarrow> request list \<times> (js_error + jsval)" where
  "deleteConversation base cid outcome log =
     (case fetch ((get_request (base @ ascii ''/conversations/'' @ to_string cid))
                    \<lparr> req_method := DELETE \<rparr>) outcome log of
        (log', out) \<Rightarrow> (log', json_of out))"

section \<open>App.jsx\<close>

subsection \<open>Trimming\<close>

text \<open>
  The code units that \<open>String.prototype.trim\<close> strips: the white space and line
  terminator characters of ECMAScript.
\<close>

definition is_ws :: "16 word \<Rightarrow> bool" where
  "is_ws c =
     (c \<in> {0x9, 0xA, 0xB, 0xC, 0xD, 0x20, 0xA0, 0x1680, 0x2028, 0x2029, 0x202F, 0x205F,
            0x3000, 0xFEFF}
      \<or> (0x2000 \<le> c \<and> c \<le> 0x200A))"

definition trim :: "jstring \<Rightarrow> jstring" where
  "trim s = rev (dropWhile is_ws (rev (dropWhile is_ws s)))"

text \<open>Whether a string begins, or ends, with a code unit that \<open>trim\<close> strips.\<close>

fun starts_ws :: "jstring \<Rightarrow> bool" where
  "starts_ws [] = False"
| "starts_ws (c # cs) = is_ws c"

definition ends_ws :: "jstring \<Rightarrow> bool" where
  "ends_ws s = starts_ws (rev s)"

subsection \<open>The browser around the component\<close>

text \<open>
  What the component reads and writes outside its own state: the build-time variable
  \<open>VITE_API_BASE\<close>, \<open>localStorage\<close>, and the network (the log of requests issued).
\<close>

record world =
  vite_api_base :: jsval
  localStorage :: "jstring \<rightharpoonup> jstring"
  sent :: "request list"

definition getItem :: "world \<Rightarrow> jstring \<Rightarrow> jsval" where
  "getItem w k = (case localStorage w k of None \<Rightarrow> JNull | Some v \<Rightarrow> JStr v)"

definition setItem :: "world \<Rightarrow> jstring \<Rightarrow> jsval \<Rightarrow> world" where
  "setItem w k v = w\<lparr> localStorage := (localStorage w)(k \<mapsto> to_string v) \<rparr>"

definition removeItem :: "world \<Rightarrow> jstring \<Rightarrow> world" where
  "removeItem w k = w\<lparr> localStorage := (localStorage w)(k := None) \<rparr>"

text \<open>
  The randomness one identifier is drawn from: what \<open>crypto.randomUUID()\<close> returns
  (\<open>None\<close> where the browser has no \<open>crypto.randomUUID\<close>), and the text of
  \<open>Math.random().toString(36).slice(2)\<close>.
\<close>

record entropy =
  randomUUID :: "jstring option"
  random36 :: jstring

text \<open>\<open>(crypto?.randomUUID && crypto.randomUUID()) || Math.random().toString(36).slice(2)\<close>\<close>

definition new_id :: "entropy \<Rightarrow> jsval" where
  "new_id e =
     js_or (case randomUUID e of None \<Rightarrow> JUndefined | Some u \<Rightarrow> JStr u) (JStr (random36 e))"

subsection \<open>The component's state and handlers\<close>

record app =
  input :: jstring
  busy :: bool
  res :: jsval
  err :: jstring
  showDebug :: bool
  convId :: jsval

definition conv_id :: jstring where
  "conv_id = ascii ''conv_id''"

text \<open>The \<open>useState\<close> initialisers.\<close>

definition initial :: "world \<Rightarrow> app" where
  "initial w =
     \<lparr> input = [], busy = False, res = JNull, err = [], showDebug = False,
       convId = js_or (getItem w conv_id) JNull \<rparr>"

text \<open>The \<open>useEffect\<close> that runs once after the first render.\<close>

definition mount_effect :: "entropy \<Rightarrow> app \<Rightarrow> world \<Rightarrow> app \<times> world" where
  "mount_effect e st w =
     (let id = getItem w conv_id in
      if \<not> truthy id then
        (let id' = new_id e; w' = setItem w conv_id id' in (st\<lparr> convId := id' \<rparr>, w'))
      else (st\<lparr> convId := id \<rparr>, w))"

definition resetConversation :: "entropy \<Rightarrow> app \<Rightarrow> world \<Rightarrow> app \<times> world" where
  "resetConversation e st w =
     (let id = new_id e; w' = setItem w conv_id id in (st\<lparr> convId := id, res := JNull \<rparr>, w'))"

text \<open>\<open>String(e.message || e)\<close>: the message, or for an empty message the error's name.\<close>

definition error_text :: "js_error \<Rightarrow> jstring" where
  "error_text e = (if message e \<noteq> [] then message e else name e)"

text \<open>
  \<open>askPlan\<close>, run to completion on the outcome the network gives to its request. The
  \<open>catch\<close> covers the whole \<open>try\<close> block, and so also a failing read of
  \<open>data.conversation_id\<close>.
\<close>

definition askPlan :: "fetch_outcome \<Rightarrow> app \<Rightarrow> world \<Rightarrow> app \<times> world" where
  "askPlan outcome st w =
     (if \<not> truthy (JStr (trim (input st))) then (st, w)
      else
        let st1 = st\<lparr> busy := True, err := [], res := JNull \<rparr> in
        case plan (API_BASE (vite_api_base w)) (trim (input st)) (convId st) outcome (sent w) of
          (log', result) \<Rightarrow>
            let w1 = w\<lparr> sent := log' \<rparr> in
            (case result of
               Inl e \<Rightarrow> (st1\<lparr> err := error_text e, busy := False \<rparr>, w1)
             | Inr data \<Rightarrow>
                 (case get_prop data (ascii ''conversation_id'') of
                    Inl e \<Rightarrow> (st1\<lparr> err := error_text e, busy := False \<rparr>, w1)
                  | Inr cid \<Rightarrow>
                      if truthy cid \<and> \<not> strict_eq cid (convId st) then
                        (st1\<lparr> convId := cid, res := data, busy := False \<rparr>,
                         setItem w1 conv_id cid)
                      else (st1\<lparr> res := data, busy := False \<rparr>, w1))))"

definition newConversation :: "app \<Rightarrow> world \<Rightarrow> app \<times> world" where
  "newConversation st w =
     (st\<lparr> convId := JNull, res := JNull, input := [] \<rparr>, removeItem w conv_id)"

subsection \<open>What the user and the browser can do\<close>

text \<open>
  Loading the page initialises the state and runs the effect; typing sets \<open>input\<close>; the
  send button, disabled while \<open>busy\<close>, calls \<open>askPlan\<close>; the second button calls
  \<open>resetConversation\<close>; the checkbox sets \<open>showDebug\<close>.
\<close>

datatype event =
    Load entropy
  | Typed jstring
  | Send fetch_outcome
  | Reset entropy
  | NewConversation
  | Debug bool

fun step :: "event \<Rightarrow> app \<times> world \<Rightarrow> app \<times> world" where
  "step (Load e) (st, w) = mount_effect e (initial w) w"
| "step (Typed s) (st, w) = (st\<lparr> input := s \<rparr>, w)"
| "step (Send outcome) (st, w) = (if busy st then (st, w) else askPlan outcome st w)"
| "step (Reset e) (st, w) = resetConversation e st w"
| "step NewConversation (st, w) = newConversation st w"
| "step (Debug b) (st, w) = (st\<lparr> showDebug := b \<rparr>, w)"

fun run :: "event list \<Rightarrow> app \<times> world \<Rightarrow> app \<times> world" where
  "run [] s = s"
| "run (e # es) s = run es (step e s)"

subsection \<open>What is rendered for a result\<close>














section \<open>Notions used in the properties\<close>


text \<open>
  The \<open>conversation_id\<close> of the envelope that \<open>plan\<close> returns on an outcome of the
  network; \<open>undefined\<close> when \<open>plan\<close> raises, or when the envelope has none. (The result
  of \<open>plan\<close> depends on the outcome alone.)
\<close>

definition returned_id :: "fetch_outcome \<Rightarrow> jsval" where
  "returned_id outcome =
     (case snd (plan [] [] JNull outcome []) of
        Inl e \<Rightarrow> JUndefined
      | Inr data \<Rightarrow> opt_chain data (ascii ''conversation_id''))"

text \<open>
  The in-memory identifier and the persisted \<open>conv_id\<close> entry agree: both absent, or the
  identifier is the stored string.
\<close>

definition in_agreement :: "app \<times> world \<Rightarrow> bool" where
  "in_agreement s =
     (case localStorage (snd s) conv_id of
        None \<Rightarrow> convId (fst s) = JNull
      | Some v \<Rightarrow> convId (fst s) = JStr v)"

text \<open>
  The identifier a response carries is a string, as the interface declares it, or the
  response carries none.
\<close>

fun string_id :: "event \<Rightarrow> bool" where
  "string_id (Send outcome) =
     (case returned_id outcome of JStr c \<Rightarrow> True | v \<Rightarrow> \<not> truthy v)"
| "string_id ev = True"

text \<open>
  An event that leaves the conversation \<open>c\<close> in place: neither of the two resets, and no
  response that carries another identifier.
\<close>

fun keeps :: "jstring \<Rightarrow> event \<Rightarrow> bool" where
  "keeps c (Reset e) = False"
| "keeps c NewConversation = False"
| "keeps c (Send outcome) = (returned_id outcome = JStr c \<or> \<not> truthy (returned_id outcome))"
| "keeps c ev = True"

text \<open>
  The text that \<open>plan\<close> gives as \<open>X-Conversation-Id\<close> for an identifier
  (\<open>conversationId || ""\<close>, as a string), and whether \<open>fetch\<close> accepts it.
\<close>

definition id_text :: "jsval \<Rightarrow> jstring" where
  "id_text c = to_string (js_or c (JStr []))"

definition accepted :: "jsval \<Rightarrow> bool" where
  "accepted c = header_value_ok (id_text c)"

text \<open>The value of the \<open>X-Conversation-Id\<close> header of a request.\<close>

definition conversation_header :: "request \<Rightarrow> jstring option" where
  "conversation_header req = map_of (req_headers req) (ascii ''X-Conversation-Id'')"





section \<open>Values used in the examples\<close>

text \<open>An envelope with the five fields of a response, for an identifier, a tool output
  and a final answer.\<close>

definition envelope :: "jstring \<Rightarrow> jsval \<Rightarrow> jsval \<Rightarrow> jsval" where
  "envelope c t fa =
     JObj [(ascii ''conversation_id'', JStr c), (ascii ''plan_text'', JStr (ascii ''p'')),
           (ascii ''tool_call'', JNull), (ascii ''tool_output'', t),
           (ascii ''final_answer'', fa)]"

definition response_200 :: "js_error + jsval \<Rightarrow> response" where
  "response_200 body = \<lparr> status = 200, statusText = ascii ''OK'', json = body \<rparr>"

definition response_500 :: "js_error + jsval \<Rightarrow> response" where
  "response_500 body =
     \<lparr> status = 500, statusText = ascii ''Internal Server Error'', json = body \<rparr>"

text \<open>The rejection of \<open>res.json()\<close> on a body that is not JSON.\<close>

definition not_json :: js_error where
  "not_json = Thrown (ascii ''SyntaxError'') (ascii ''Unexpected token <'')"

text \<open>The rejection of \<open>fetch\<close> when the server cannot be reached.\<close>

definition unreachable :: js_error where
  "unreachable = Thrown (ascii ''TypeError'') (ascii ''Failed to fetch'')"

definition localhost :: jstring where
  "localhost = ascii ''http://localhost:8000''"

definition empty_world :: world where
  "empty_world = \<lparr> vite_api_base = JUndefined, localStorage = Map.empty, sent = [] \<rparr>"

text \<open>The component with a text in the input field and a conversation identifier.\<close>

definition typed :: "jstring \<Rightarrow> jsval \<Rightarrow> app" where
  "typed s c =
     \<lparr> input = s, busy = False, res = JNull, err = [], showDebug = False, convId = c \<rparr>"

text \<open>
  Two identifiers: one with a code unit above 255 (a CJK character), and the letter \<open>x\<close>
  after a space.
\<close>

definition wide_id :: jstring where
  "wide_id = [0x4E2D]"

definition padded_id :: jstring where
  "padded_id = [0x20, 0x78]"

definition some_entropy :: entropy where
  "some_entropy = \<lparr> randomUUID = Some (ascii ''u-7''), random36 = ascii ''k3x'' \<rparr>"




section \<open>Properties of the model\<close>

subsection \<open>Trimming\<close>

lemma starts_ws_dropWhile: "\<not> starts_ws (dropWhile is_ws s)"
  by (induction s) auto

lemma starts_ws_rev_dropWhile:
  "\<not> starts_ws s \<Longrightarrow> \<not> starts_ws (rev (dropWhile is_ws (rev s)))"
proof (induction s rule: rev_induct)
  case Nil
  then show ?case by simp
next
  case (snoc x xs)
  show ?case
  proof (cases "is_ws x")
    case True
    from snoc.prems have "\<not> starts_ws xs" by (cases xs) auto
    with snoc.IH True show ?thesis by simp
  next
    case False
    with snoc.prems show ?thesis by simp
  qed
qed

lemma not_starts_ws_trim: "\<not> starts_ws (trim s)"
  unfolding trim_def by (rule starts_ws_rev_dropWhile) (rule starts_ws_dropWhile)

lemma not_ends_ws_trim: "\<not> ends_ws (trim s)"
  by (simp add: ends_ws_def trim_def starts_ws_dropWhile)

subsection \<open>What \<open>plan\<close> sends and returns\<close>

lemma content_type_ok: "header_value_ok (ascii ''application/json'')"
  by (simp add: header_value_ok_def normalize_value_def http_ws_def ascii_def)

lemma content_type_normal: "normalize_value (ascii ''application/json'') = ascii ''application/json''"
  by (simp add: normalize_value_def http_ws_def ascii_def)

lemma empty_value: "header_value_ok [] \<and> normalize_value [] = []"
  by (simp add: header_value_ok_def normalize_value_def)

lemma accepted_absent: "accepted JNull \<and> accepted JUndefined"
  by (simp add: accepted_def id_text_def js_or_def empty_value)

lemma accepted_JStr: "accepted (JStr c) = header_value_ok c"
  by (simp add: accepted_def id_text_def js_or_def empty_value)

lemma id_text_JStr: "id_text (JStr c) = c"
  by (simp add: id_text_def js_or_def)

lemma headers_plan_request:
  "list_all (\<lambda>(k, v). header_value_ok v) (req_headers (plan_request base u c)) = accepted c"
  by (simp add: plan_request_def content_type_ok accepted_def id_text_def)

lemma normalized_plan_request:
  "normalized (plan_request base u c) =
     \<lparr> req_url = base @ ascii ''/plan'', req_method = POST,
       req_headers = [(ascii ''Content-Type'', ascii ''application/json''),
                      (ascii ''X-Conversation-Id'', normalize_value (id_text c))],
       req_body = Some (JObj [(ascii ''user_input'', JStr u)]) \<rparr>"
  by (simp add: normalized_def plan_request_def content_type_normal id_text_def)

lemma plan_log:
  "fst (plan base u c outcome log) =
     (if accepted c then log @ [normalized (plan_request base u c)] else log)"
  by (auto simp: plan_def fetch_def headers_plan_request split: fetch_outcome.splits sum.splits)

lemma plan_refused: "\<not> accepted c \<Longrightarrow> snd (plan base u c outcome log) = Inl refused"
  by (simp add: plan_def fetch_def headers_plan_request)

lemma plan_result_indep:
  "accepted c \<Longrightarrow> accepted c' \<Longrightarrow>
     snd (plan base u c outcome log) = snd (plan base' u' c' outcome log')"
  by (auto simp: plan_def fetch_def headers_plan_request split: fetch_outcome.splits sum.splits)

lemma returned_id_plan:
  "snd (plan base u c outcome log) = Inr data \<Longrightarrow>
     accepted c \<and> returned_id outcome = opt_chain data (ascii ''conversation_id'')"
proof -
  assume r: "snd (plan base u c outcome log) = Inr data"
  have a: "accepted c"
  proof (rule ccontr)
    assume "\<not> accepted c"
    from plan_refused [OF this] r show False by simp
  qed
  from plan_result_indep [OF a conjunct1 [OF accepted_absent], of base u outcome log "[]" "[]" "[]"] r
  have "snd (plan [] [] JNull outcome []) = Inr data" by simp
  with a show ?thesis by (simp add: returned_id_def)
qed

lemma returned_id_raised:
  "accepted c \<Longrightarrow> snd (plan base u c outcome log) = Inl e \<Longrightarrow> returned_id outcome = JUndefined"
  using plan_result_indep [of c JNull base u outcome log "[]" "[]" "[]"]
  by (simp add: returned_id_def accepted_absent)

lemma header_normalized_plan_request:
  "conversation_header (normalized (plan_request base u c)) = Some (normalize_value (id_text c))"
  by (simp add: conversation_header_def normalized_plan_request ascii_def)

lemma normalize_value_plain: "\<not> padded v \<Longrightarrow> normalize_value v = v"
proof (cases v)
  case Nil
  then show ?thesis by (simp add: normalize_value_def)
next
  case (Cons x xs)
  assume "\<not> padded v"
  with Cons have 1: "\<not> http_ws x" and 2: "\<not> starts_blank (rev (x # xs))"
    by (simp_all add: padded_def)
  from 2 have "dropWhile http_ws (rev (x # xs)) = rev (x # xs)"
    by (cases "rev (x # xs)") auto
  with 1 Cons show ?thesis by (simp add: normalize_value_def)
qed

lemma plan_resolved:
  "accepted c \<Longrightarrow>
     snd (plan base u c (Resolved r) log) =
       (case json r of
          Inl e \<Rightarrow> Inl e
        | Inr data \<Rightarrow>
            if ok r then Inr data
            else (case get_prop data (ascii ''error'') of
                    Inl e \<Rightarrow> Inl e
                  | Inr msg \<Rightarrow> Inl (new_Error (js_or msg (JStr (statusText r))))))"
  by (simp add: plan_def fetch_def headers_plan_request split: sum.splits)

lemma plan_rejected: "accepted c \<Longrightarrow> snd (plan base u c (Rejected e) log) = Inl e"
  by (simp add: plan_def fetch_def headers_plan_request)

subsection \<open>What \<open>askPlan\<close> changes\<close>

lemma askPlan_sent:
  "sent (snd (askPlan outcome st w)) =
     sent w @ (if trim (input st) = [] \<or> \<not> accepted (convId st) then []
               else [normalized (plan_request (API_BASE (vite_api_base w)) (trim (input st))
                       (convId st))])"
proof (cases "plan (API_BASE (vite_api_base w)) (trim (input st)) (convId st) outcome (sent w)")
  case (Pair log' result)
  with plan_log [of "API_BASE (vite_api_base w)" "trim (input st)" "convId st" outcome "sent w"]
  have "log' = (if accepted (convId st)
                then sent w @ [normalized (plan_request (API_BASE (vite_api_base w))
                                 (trim (input st)) (convId st))]
                else sent w)"
    by simp
  with Pair show ?thesis
    by (auto simp: askPlan_def Let_def setItem_def split: sum.splits)
qed

lemma askPlan_ids:
  "convId (fst (askPlan outcome st w)) =
     (if trim (input st) \<noteq> [] \<and> accepted (convId st) \<and> truthy (returned_id outcome)
         \<and> \<not> strict_eq (returned_id outcome) (convId st)
      then returned_id outcome else convId st)
   \<and> localStorage (snd (askPlan outcome st w)) =
     (if trim (input st) \<noteq> [] \<and> accepted (convId st) \<and> truthy (returned_id outcome)
         \<and> \<not> strict_eq (returned_id outcome) (convId st)
      then (localStorage w)(conv_id \<mapsto> to_string (returned_id outcome)) else localStorage w)"
proof (cases "plan (API_BASE (vite_api_base w)) (trim (input st)) (convId st) outcome (sent w)")
  case (Pair log' result)
  show ?thesis
  proof (cases result)
    case (Inl e)
    show ?thesis
    proof (cases "accepted (convId st)")
      case True
      with Pair Inl have "returned_id outcome = JUndefined"
        using returned_id_raised [of "convId st" "API_BASE (vite_api_base w)" "trim (input st)"
                  outcome "sent w" e]
        by simp
      with Pair Inl show ?thesis by (simp add: askPlan_def)
    next
      case False
      with Pair Inl show ?thesis by (simp add: askPlan_def)
    qed
  next
    case (Inr data)
    with Pair have r: "accepted (convId st)"
        "returned_id outcome = opt_chain data (ascii ''conversation_id'')"
      using returned_id_plan [of "API_BASE (vite_api_base w)" "trim (input st)" "convId st"
                outcome "sent w" data]
      by simp_all
    show ?thesis
    proof (cases "get_prop data (ascii ''conversation_id'')")
      case (Inl e)
      with r have "returned_id outcome = JUndefined" by (simp add: opt_chain_def)
      with Pair Inr Inl show ?thesis by (simp add: askPlan_def)
    next
      case (Inr cid)
      with r have "returned_id outcome = cid" by (simp add: opt_chain_def)
      with Pair \<open>result = Inr data\<close> Inr r(1) show ?thesis
        by (simp add: askPlan_def setItem_def Let_def)
    qed
  qed
qed

subsection \<open>Agreement of the identifier with its stored copy\<close>

lemma new_id_str: "\<exists>s. new_id e = JStr s"
  by (auto simp: new_id_def js_or_def split: option.splits)

lemma agree_mount: "in_agreement (mount_effect e st w)"
proof -
  obtain s where "new_id e = JStr s" using new_id_str by blast
  then show ?thesis
    by (auto simp: in_agreement_def mount_effect_def getItem_def setItem_def Let_def
             split: option.splits)
qed

lemma agree_reset: "in_agreement (resetConversation e st w)"
proof -
  obtain s where "new_id e = JStr s" using new_id_str by blast
  then show ?thesis
    by (simp add: in_agreement_def resetConversation_def setItem_def Let_def)
qed

lemma agree_new: "in_agreement (newConversation st w)"
  by (simp add: in_agreement_def newConversation_def removeItem_def)

lemma agree_askPlan:
  assumes "in_agreement (st, w)" "string_id (Send outcome)"
  shows "in_agreement (askPlan outcome st w)"
proof (cases "trim (input st) \<noteq> [] \<and> accepted (convId st) \<and> truthy (returned_id outcome)
         \<and> \<not> strict_eq (returned_id outcome) (convId st)")
  case True
  with assms(2) obtain c where "returned_id outcome = JStr c"
    by (cases "returned_id outcome") auto
  with True askPlan_ids [of outcome st w] show ?thesis
    by (simp add: in_agreement_def)
next
  case False
  with assms(1) askPlan_ids [of outcome st w] show ?thesis
    by (auto simp: in_agreement_def split: option.splits)
qed

lemma agree_step:
  "in_agreement s \<Longrightarrow> string_id ev \<Longrightarrow> in_agreement (step ev s)"
proof (cases s)
  case (Pair st w)
  assume "in_agreement s" "string_id ev"
  with Pair show ?thesis
    by (cases ev)
       (auto simp: agree_mount agree_reset agree_new agree_askPlan,
        auto simp: in_agreement_def split: option.splits)
qed

lemma agree_run:
  "in_agreement s \<Longrightarrow> list_all string_id evs \<Longrightarrow> in_agreement (run evs s)"
  by (induction evs arbitrary: s) (auto simp: agree_step)

subsection \<open>A conversation that is kept\<close>

lemma keep_step:
  assumes "convId st = JStr c" "localStorage w conv_id = Some c" "c \<noteq> []" "keeps c ev"
  shows "convId (fst (step ev (st, w))) = JStr c
       \<and> localStorage (snd (step ev (st, w))) conv_id = Some c
       \<and> (\<exists>new. sent (snd (step ev (st, w))) = sent w @ new
             \<and> (\<forall>req \<in> set new. conversation_header req = Some (normalize_value c))
             \<and> (\<not> header_value_ok c \<longrightarrow> new = []))"
proof (cases ev)
  case (Load e)
  with assms show ?thesis
    by (simp add: mount_effect_def initial_def getItem_def)
next
  case (Send outcome)
  with assms have "\<not> (trim (input st) \<noteq> [] \<and> accepted (convId st) \<and> truthy (returned_id outcome)
      \<and> \<not> strict_eq (returned_id outcome) (convId st))"
    by auto
  with askPlan_ids [of outcome st w]
  have ids: "convId (fst (askPlan outcome st w)) = convId st"
            "localStorage (snd (askPlan outcome st w)) = localStorage w"
    by simp_all
  let ?new = "if trim (input st) = [] \<or> \<not> accepted (convId st) then []
               else [normalized (plan_request (API_BASE (vite_api_base w)) (trim (input st))
                       (convId st))]"
  from assms(1) have "(\<forall>req \<in> set ?new. conversation_header req = Some (normalize_value c))
      \<and> (\<not> header_value_ok c \<longrightarrow> ?new = [])"
    by (simp add: header_normalized_plan_request id_text_JStr accepted_JStr)
  with askPlan_sent [of outcome st w]
  have "\<exists>new. sent (snd (askPlan outcome st w)) = sent w @ new
             \<and> (\<forall>req \<in> set new. conversation_header req = Some (normalize_value c))
             \<and> (\<not> header_value_ok c \<longrightarrow> new = [])"
    by blast
  with Send assms(1,2) ids show ?thesis
    by simp
qed (use assms in auto)

lemma keep_run:
  "convId (fst s) = JStr c \<Longrightarrow> localStorage (snd s) conv_id = Some c \<Longrightarrow> c \<noteq> [] \<Longrightarrow>
   list_all (keeps c) evs \<Longrightarrow>
     convId (fst (run evs s)) = JStr c
     \<and> localStorage (snd (run evs s)) conv_id = Some c
     \<and> (\<exists>new. sent (snd (run evs s)) = sent (snd s) @ new
           \<and> (\<forall>req \<in> set new. conversation_header req = Some (normalize_value c))
           \<and> (\<not> header_value_ok c \<longrightarrow> new = []))"
proof (induction evs arbitrary: s)
  case Nil
  then show ?case by simp
next
  case (Cons ev evs)
  obtain st w where s: "s = (st, w)" by (cases s)
  from Cons.prems s keep_step [of st c w ev]
  obtain new where
    1: "convId (fst (step ev s)) = JStr c" "localStorage (snd (step ev s)) conv_id = Some c"
       "sent (snd (step ev s)) = sent (snd s) @ new"
       "\<forall>req \<in> set new. conversation_header req = Some (normalize_value c)"
       "\<not> header_value_ok c \<longrightarrow> new = []"
    by auto
  from Cons.IH [OF 1(1) 1(2) \<open>c \<noteq> []\<close>] Cons.prems(4)
  obtain new' where
    2: "convId (fst (run evs (step ev s))) = JStr c"
       "localStorage (snd (run evs (step ev s))) conv_id = Some c"
       "sent (snd (run evs (step ev s))) = sent (snd (step ev s)) @ new'"
       "\<forall>req \<in> set new'. conversation_header req = Some (normalize_value c)"
       "\<not> header_value_ok c \<longrightarrow> new' = []"
    by auto
  from 1 2 have "sent (snd (run (ev # evs) s)) = sent (snd s) @ (new @ new')
     \<and> (\<forall>req \<in> set (new @ new'). conversation_header req = Some (normalize_value c))
     \<and> (\<not> header_value_ok c \<longrightarrow> new @ new' = [])"
    by auto
  then have "\<exists>n. sent (snd (run (ev # evs) s)) = sent (snd s) @ n
     \<and> (\<forall>req \<in> set n. conversation_header req = Some (normalize_value c))
     \<and> (\<not> header_value_ok c \<longrightarrow> n = [])"
    by (rule exI)
  with 2 show ?case by simp
qed

subsection \<open>Rendering\<close>







subsection \<open>The examples, evaluated\<close>

lemma trim_blank: "trim [0x20, 0x9, 0x3000] = []"
  by (simp add: trim_def is_ws_def)

lemma trim_hi: "trim (ascii ''  hi '') = ascii ''hi''"
  by (simp add: trim_def is_ws_def ascii_def)

lemma trim_hello: "trim (ascii ''hello'') = ascii ''hello''"
  by (simp add: trim_def is_ws_def ascii_def)

lemma returned_id_200:
  "returned_id (Resolved (response_200 (Inr (envelope c t fa)))) = JStr c"
  by (simp add: returned_id_def plan_resolved accepted_absent ok_def response_200_def
        envelope_def opt_chain_def ascii_def)

lemma returned_id_rejected: "returned_id (Rejected e) = JUndefined"
  by (simp add: returned_id_def plan_rejected accepted_absent)

lemma plain_id_ok: "header_value_ok (ascii ''c-1'') \<and> \<not> padded (ascii ''c-1'')"
  by (simp add: header_value_ok_def normalize_value_def http_ws_def padded_def ascii_def)

lemma wide_id_refused: "\<not> header_value_ok wide_id"
  by (simp add: header_value_ok_def wide_id_def)

lemma padded_id_stripped:
  "header_value_ok padded_id \<and> padded padded_id \<and> normalize_value padded_id = ascii ''x''"
  by (simp add: header_value_ok_def normalize_value_def http_ws_def padded_def padded_id_def
        ascii_def)

section \<open>The claims\<close>

text \<open>
  C1, as amended. A call of \<open>plan(user_input, conversationId)\<close> with an identifier that
  is a valid header value adds exactly one request to the requests issued: a POST to
  \<open>/plan\<close> under the API base, whose body is the JSON text of \<open>{ user_input }\<close> and whose
  \<open>X-Conversation-Id\<close> header is the identifier with leading and trailing blanks
  stripped, so the identifier itself when it has none; for \<open>null\<close> or \<open>undefined\<close> the
  header is the empty string. This holds whatever the network answers. With an identifier
  that is not a valid header value (a code unit above 255, or a NUL, line feed or carriage
  return inside it) \<open>fetch\<close> refuses the request: none is issued and \<open>plan\<close> raises.
\<close>

theorem plan_issues_one_post:
  "(header_value_ok cid \<longrightarrow>
      fst (plan base user_input (JStr cid) outcome log) =
        log @ [\<lparr> req_url = base @ ascii ''/plan'', req_method = POST,
                 req_headers = [(ascii ''Content-Type'', ascii ''application/json''),
                                (ascii ''X-Conversation-Id'', normalize_value cid)],
                 req_body = Some (JObj [(ascii ''user_input'', JStr user_input)]) \<rparr>])
   \<and> (\<not> padded cid1 \<longrightarrow> normalize_value cid1 = cid1)
   \<and> (\<not> header_value_ok cid2 \<longrightarrow>
        plan base user_input (JStr cid2) outcome log = (log, Inl refused))
   \<and> fst (plan base user_input JNull outcome log) =
     log @ [\<lparr> req_url = base @ ascii ''/plan'', req_method = POST,
              req_headers = [(ascii ''Content-Type'', ascii ''application/json''),
                             (ascii ''X-Conversation-Id'', [])],
              req_body = Some (JObj [(ascii ''user_input'', JStr user_input)]) \<rparr>]
   \<and> fst (plan base user_input JUndefined outcome log) =
     log @ [\<lparr> req_url = base @ ascii ''/plan'', req_method = POST,
              req_headers = [(ascii ''Content-Type'', ascii ''application/json''),
                             (ascii ''X-Conversation-Id'', [])],
              req_body = Some (JObj [(ascii ''user_input'', JStr user_input)]) \<rparr>]"
proof -
  have "\<not> header_value_ok cid2 \<longrightarrow>
        plan base user_input (JStr cid2) outcome log = (log, Inl refused)"
    by (simp add: prod_eq_iff plan_log plan_refused accepted_JStr)
  then show ?thesis
    by (simp add: plan_log normalized_plan_request accepted_JStr accepted_absent id_text_JStr
          id_text_def js_or_def empty_value normalize_value_plain)
qed

text \<open>
  The request for the input \<open>hi\<close> in the conversation \<open>c-1\<close>, the server out of reach;
  and no request for the same input with the identifier of one CJK character.
\<close>

theorem plan_issues_one_post_witness:
  "header_value_ok (ascii ''c-1'') \<and> \<not> padded (ascii ''c-1'') \<and> \<not> header_value_ok wide_id
   \<and> fst (plan localhost (ascii ''hi'') (JStr (ascii ''c-1'')) (Rejected unreachable) []) =
     [\<lparr> req_url = localhost @ ascii ''/plan'', req_method = POST,
        req_headers = [(ascii ''Content-Type'', ascii ''application/json''),
                       (ascii ''X-Conversation-Id'', ascii ''c-1'')],
        req_body = Some (JObj [(ascii ''user_input'', JStr (ascii ''hi''))]) \<rparr>]
   \<and> plan localhost (ascii ''hi'') (JStr wide_id) (Rejected unreachable) [] = ([], Inl refused)"
  using plan_issues_one_post
          [of "ascii ''c-1''" localhost "ascii ''hi''" "Rejected unreachable" "[]"
              "ascii ''c-1''" wide_id]
        plain_id_ok wide_id_refused
  by simp

text \<open>
  The server would answer with a status 200 and an envelope, but the identifier has a code
  unit above 255: \<open>plan\<close> issues no request at all, and raises.
\<close>

theorem no_post_for_wide_id:
  "plan localhost (ascii ''hi'') (JStr wide_id)
     (Resolved (response_200 (Inr (envelope (ascii ''c-1'') JNull (JStr (ascii ''done''))))))
     [] = ([], Inl refused)"
  by (simp add: prod_eq_iff plan_log plan_refused accepted_JStr wide_id_refused)

text \<open>
  C2, as amended. When \<open>fetch\<close> accepts the request (the identifier is a valid header
  value), resolves, and the body parses to a JSON object, \<open>plan\<close> raises exactly when the
  status is outside 200 to 299; the message of the error is then the string form of the
  body's \<open>error\<close> field when that is truthy (for a non-empty string, the string itself)
  and the HTTP status text otherwise; on a status in 200 to 299 the parsed body is
  returned unchanged. When the body is not JSON, or the network fails, \<open>plan\<close> raises
  that error whatever the status.
\<close>

theorem plan_raises_iff_not_ok:
  "accepted conversationId \<Longrightarrow>
   (json r = Inr (JObj kvs) \<longrightarrow>
      (isl (snd (plan base user_input conversationId (Resolved r) log)) \<longleftrightarrow> \<not> ok r)
      \<and> snd (plan base user_input conversationId (Resolved r) log) =
        (if ok r then Inr (JObj kvs)
         else Inl (Thrown (ascii ''Error'')
                (case map_of kvs (ascii ''error'') of
                   None \<Rightarrow> statusText r
                 | Some v \<Rightarrow> if truthy v then to_string v else statusText r))))
   \<and> (json r' = Inl e \<longrightarrow> snd (plan base user_input conversationId (Resolved r') log) = Inl e)
   \<and> snd (plan base user_input conversationId (Rejected e') log) = Inl e'"
  by (auto simp: plan_resolved plan_rejected new_Error_def js_or_def split: option.splits)

text \<open>A status 500 with the body \<open>{"error": "boom"}\<close>, and a status 500 with no JSON.\<close>

theorem plan_raises_iff_not_ok_witness:
  "accepted JNull
   \<and> json (response_500 (Inr (JObj [(ascii ''error'', JStr (ascii ''boom''))])))
     = Inr (JObj [(ascii ''error'', JStr (ascii ''boom''))])
   \<and> \<not> ok (response_500 (Inr (JObj [(ascii ''error'', JStr (ascii ''boom''))])))
   \<and> snd (plan localhost (ascii ''hi'') JNull
        (Resolved (response_500 (Inr (JObj [(ascii ''error'', JStr (ascii ''boom''))])))) [])
     = Inl (Thrown (ascii ''Error'') (ascii ''boom''))
   \<and> json (response_500 (Inl not_json)) = Inl not_json
   \<and> snd (plan localhost (ascii ''hi'') JNull (Resolved (response_500 (Inl not_json))) [])
     = Inl not_json"
proof -
  have 0: "accepted JNull"
    by (simp add: accepted_absent)
  have 1: "json (response_500 (Inr (JObj [(ascii ''error'', JStr (ascii ''boom''))])))
     = Inr (JObj [(ascii ''error'', JStr (ascii ''boom''))])"
    by (simp add: response_500_def)
  have 2: "json (response_500 (Inl not_json)) = Inl not_json"
    by (simp add: response_500_def)
  have 3: "\<not> ok (response_500 (Inr (JObj [(ascii ''error'', JStr (ascii ''boom''))])))"
    by (simp add: ok_def response_500_def)
  from plan_raises_iff_not_ok
         [OF 0, of "response_500 (Inr (JObj [(ascii ''error'', JStr (ascii ''boom''))]))"
             "[(ascii ''error'', JStr (ascii ''boom''))]" localhost "ascii ''hi''" "[]"
             "response_500 (Inl not_json)" not_json unreachable]
       0 1 2 3
  show ?thesis by (simp add: ascii_def)
qed

text \<open>
  A status 200 whose body is not JSON: the status is in 200 to 299 and \<open>plan\<close> raises.
  And a status 200 with an envelope, for an identifier that \<open>fetch\<close> does not accept:
  \<open>plan\<close> raises as well.
\<close>

theorem plan_raises_on_2xx:
  "ok (response_200 (Inl not_json))
   \<and> snd (plan localhost (ascii ''hi'') JNull (Resolved (response_200 (Inl not_json))) [])
       = Inl not_json
   \<and> ok (response_200 (Inr (envelope (ascii ''c-1'') JNull (JStr (ascii ''done'')))))
   \<and> snd (plan localhost (ascii ''hi'') (JStr wide_id)
            (Resolved (response_200 (Inr (envelope (ascii ''c-1'') JNull (JStr (ascii ''done''))))))
            [])
       = Inl refused"
  by (simp add: plan_resolved plan_refused accepted_absent accepted_JStr wide_id_refused ok_def
        response_200_def)

text \<open>
  C3, as amended. When \<open>plan\<close> returns an envelope whose \<open>conversation_id\<close> is a
  non-empty string other than the identifier \<open>askPlan\<close> sent (which may be \<open>null\<close>),
  \<open>askPlan\<close> adopts it: it becomes the component's identifier and the stored \<open>conv_id\<close>,
  and stays both through everything that follows (typing, further turns, reloading the
  page) as long as neither reset is used and no response carries yet another identifier.
  Every later request carries it in \<open>X-Conversation-Id\<close> with leading and trailing blanks
  stripped, so unchanged when it has none; when it is not a valid header value, no later
  request is issued at all.
\<close>

theorem adopted_id_is_kept:
  assumes "trim (input st) \<noteq> []" and "accepted (convId st)"
    and "returned_id outcome = JStr c" and "c \<noteq> []"
    and "convId st \<noteq> JStr c" and "list_all (keeps c) evs"
  shows "convId (fst (askPlan outcome st w)) = JStr c
       \<and> localStorage (snd (askPlan outcome st w)) conv_id = Some c
       \<and> convId (fst (run evs (askPlan outcome st w))) = JStr c
       \<and> localStorage (snd (run evs (askPlan outcome st w))) conv_id = Some c
       \<and> (\<forall>req \<in> set (drop (length (sent (snd (askPlan outcome st w))))
                          (sent (snd (run evs (askPlan outcome st w))))).
             conversation_header req = Some (normalize_value c))
       \<and> (\<not> padded c \<longrightarrow>
            (\<forall>req \<in> set (drop (length (sent (snd (askPlan outcome st w))))
                          (sent (snd (run evs (askPlan outcome st w))))).
               conversation_header req = Some c))
       \<and> (\<not> header_value_ok c \<longrightarrow>
            drop (length (sent (snd (askPlan outcome st w))))
              (sent (snd (run evs (askPlan outcome st w)))) = [])"
proof -
  from assms have "\<not> strict_eq (JStr c) (convId st)"
    by (cases "convId st") auto
  with assms askPlan_ids [of outcome st w]
  have a: "convId (fst (askPlan outcome st w)) = JStr c"
          "localStorage (snd (askPlan outcome st w)) conv_id = Some c"
    by simp_all
  from keep_run [OF a \<open>c \<noteq> []\<close> assms(6)] a show ?thesis
    by (auto simp: normalize_value_plain)
qed

text \<open>
  A first turn without an identifier, answered with \<open>c-1\<close>; then a second turn with the
  same answer, a reload of the page, and a third turn that fails.
\<close>

theorem adopted_id_is_kept_witness:
  "trim (input (typed (ascii ''hello'') JNull)) \<noteq> []
   \<and> accepted (convId (typed (ascii ''hello'') JNull))
   \<and> returned_id (Resolved (response_200 (Inr (envelope (ascii ''c-1'') JNull JNull))))
       = JStr (ascii ''c-1'')
   \<and> ascii ''c-1'' \<noteq> []
   \<and> convId (typed (ascii ''hello'') JNull) \<noteq> JStr (ascii ''c-1'')
   \<and> list_all (keeps (ascii ''c-1''))
        [Typed (ascii ''hello''),
         Send (Resolved (response_200 (Inr (envelope (ascii ''c-1'') JNull JNull)))),
         Load some_entropy, Typed (ascii ''hello''), Send (Rejected unreachable)]
   \<and> \<not> padded (ascii ''c-1'')
   \<and> convId (fst (askPlan (Resolved (response_200 (Inr (envelope (ascii ''c-1'') JNull JNull))))
                    (typed (ascii ''hello'') JNull) empty_world)) = JStr (ascii ''c-1'')
   \<and> map conversation_header
        (sent (snd (run [Typed (ascii ''hello''),
                         Send (Resolved (response_200 (Inr (envelope (ascii ''c-1'') JNull JNull)))),
                         Load some_entropy, Typed (ascii ''hello''), Send (Rejected unreachable)]
                     (askPlan (Resolved (response_200 (Inr (envelope (ascii ''c-1'') JNull JNull))))
                        (typed (ascii ''hello'') JNull) empty_world))))
       = [Some [], Some (ascii ''c-1''), Some (ascii ''c-1'')]"
proof -
  let ?out = "Resolved (response_200 (Inr (envelope (ascii ''c-1'') JNull JNull)))"
  let ?st = "typed (ascii ''hello'') JNull"
  let ?evs = "[Typed (ascii ''hello''), Send ?out, Load some_entropy, Typed (ascii ''hello''),
               Send (Rejected unreachable)]"
  have 1: "trim (input ?st) \<noteq> []"
    by (simp add: typed_def trim_hello) (simp add: ascii_def)
  have 2: "accepted (convId ?st)"
    by (simp add: typed_def accepted_absent)
  have 3: "returned_id ?out = JStr (ascii ''c-1'')"
    by (rule returned_id_200)
  have 4: "ascii ''c-1'' \<noteq> []"
    by (simp add: ascii_def)
  have 5: "convId ?st \<noteq> JStr (ascii ''c-1'')"
    by (simp add: typed_def)
  have 6: "list_all (keeps (ascii ''c-1'')) ?evs"
    by (simp add: returned_id_200 returned_id_rejected)
  have 7: "\<not> padded (ascii ''c-1'')"
    by (simp add: plain_id_ok)
  note k = adopted_id_is_kept [OF 1 2 3 4 5 6, of empty_world]
  have 8: "map conversation_header (sent (snd (run ?evs (askPlan ?out ?st empty_world))))
       = [Some [], Some (ascii ''c-1''), Some (ascii ''c-1'')]"
    by (simp add: askPlan_def plan_def fetch_def plan_request_def normalized_def
          header_value_ok_def normalize_value_def http_ws_def ok_def response_200_def
          envelope_def typed_def empty_world_def trim_def is_ws_def mount_effect_def initial_def
          new_id_def getItem_def setItem_def conv_id_def conversation_header_def js_or_def
          API_BASE_def error_text_def unreachable_def some_entropy_def ascii_def)
  from k 1 2 3 4 5 6 7 8 show ?thesis by blast
qed

text \<open>
  A first turn answered with the identifier \<open>x\<close> after a space: it is adopted, and the
  second turn carries \<open>x\<close> alone. A first turn answered with an identifier of one CJK
  character: it is adopted, and the second turn issues no request.
\<close>

theorem adopted_id_not_sent_as_is:
  "convId (fst (askPlan (Resolved (response_200 (Inr (envelope padded_id JNull JNull))))
                  (typed (ascii ''hello'') JNull) empty_world)) = JStr padded_id
   \<and> map conversation_header
        (sent (snd (run [Send (Resolved (response_200 (Inr (envelope padded_id JNull JNull))))]
                     (askPlan (Resolved (response_200 (Inr (envelope padded_id JNull JNull))))
                        (typed (ascii ''hello'') JNull) empty_world))))
       = [Some [], Some (ascii ''x'')]
   \<and> Some (ascii ''x'') \<noteq> Some padded_id
   \<and> convId (fst (askPlan (Resolved (response_200 (Inr (envelope wide_id JNull JNull))))
                    (typed (ascii ''hello'') JNull) empty_world)) = JStr wide_id
   \<and> map conversation_header
        (sent (snd (run [Send (Resolved (response_200 (Inr (envelope wide_id JNull JNull))))]
                     (askPlan (Resolved (response_200 (Inr (envelope wide_id JNull JNull))))
                        (typed (ascii ''hello'') JNull) empty_world))))
       = [Some []]"
  by (simp add: askPlan_def plan_def fetch_def plan_request_def normalized_def
        header_value_ok_def normalize_value_def http_ws_def ok_def response_200_def
        envelope_def typed_def empty_world_def trim_def is_ws_def
        getItem_def setItem_def conv_id_def conversation_header_def js_or_def
        API_BASE_def error_text_def refused_def padded_id_def wide_id_def ascii_def)

text \<open>
  C4. When the input is empty after trimming, \<open>askPlan\<close> returns at once: no request is
  issued, and the component's state (result, error text, busy flag, identifier), the
  storage and the requests issued are all unchanged.
\<close>

theorem askPlan_empty_input:
  "trim (input st) = [] \<Longrightarrow> askPlan outcome st w = (st, w)"
  by (simp add: askPlan_def)

text \<open>An input of a space, a tab and an ideographic space.\<close>

theorem askPlan_empty_input_witness:
  "trim (input (typed [0x20, 0x9, 0x3000] JNull)) = []
   \<and> askPlan (Resolved (response_200 (Inr (envelope (ascii ''c-1'') JNull JNull))))
        (typed [0x20, 0x9, 0x3000] JNull) empty_world
       = (typed [0x20, 0x9, 0x3000] JNull, empty_world)"
proof -
  have h: "trim (input (typed [0x20, 0x9, 0x3000] JNull)) = []"
    by (simp add: typed_def trim_blank)
  from askPlan_empty_input [OF h] h show ?thesis by simp
qed







text \<open>
  C8. \<open>listConversations\<close>, \<open>getConversation\<close> and \<open>deleteConversation\<close> return the
  result of \<open>r.json()\<close> whatever the status and the status text of the response: the
  parsed body for every status, error statuses included.
\<close>

theorem history_ignores_status:
  "snd (listConversations base (Resolved (r\<lparr> status := n, statusText := t \<rparr>)) log) = json r
   \<and> snd (getConversation base cid (Resolved (r\<lparr> status := n, statusText := t \<rparr>)) log) = json r
   \<and> snd (deleteConversation base cid (Resolved (r\<lparr> status := n, statusText := t \<rparr>)) log)
       = json r"
  by (simp add: listConversations_def getConversation_def deleteConversation_def fetch_def
        get_request_def json_of_def)

text \<open>A status 404 with the body \<open>{"error": "boom"}\<close> is returned like any other.\<close>

theorem history_ignores_status_witness:
  "snd (getConversation localhost (JStr (ascii ''c-1''))
         (Resolved \<lparr> status = 404, statusText = ascii ''Not Found'',
                      json = Inr (JObj [(ascii ''error'', JStr (ascii ''boom''))]) \<rparr>) [])
     = Inr (JObj [(ascii ''error'', JStr (ascii ''boom''))])
   \<and> snd (deleteConversation localhost (JStr (ascii ''c-1''))
         (Resolved \<lparr> status = 404, statusText = ascii ''Not Found'',
                      json = Inr (JObj [(ascii ''error'', JStr (ascii ''boom''))]) \<rparr>) [])
     = Inr (JObj [(ascii ''error'', JStr (ascii ''boom''))])
   \<and> snd (listConversations localhost
         (Resolved \<lparr> status = 404, statusText = ascii ''Not Found'',
                      json = Inr (JObj [(ascii ''error'', JStr (ascii ''boom''))]) \<rparr>) [])
     = Inr (JObj [(ascii ''error'', JStr (ascii ''boom''))])"
  using history_ignores_status
          [where base = localhost and n = 404 and t = "ascii ''Not Found''" and log = "[]"
             and cid = "JStr (ascii ''c-1'')"
             and r = "response_200 (Inr (JObj [(ascii ''error'', JStr (ascii ''boom''))]))"]
  by (simp add: response_200_def)

text \<open>
  C9. The \<open>user_input\<close> of the request that \<open>askPlan\<close> issues is the trimmed input: every
  request it adds has the body \<open>{ user_input }\<close> with the input trimmed, which neither
  begins nor ends with white space.
\<close>

theorem askPlan_sends_trimmed:
  "(\<forall>req \<in> set (drop (length (sent w)) (sent (snd (askPlan outcome st w)))).
       req_body req = Some (JObj [(ascii ''user_input'', JStr (trim (input st)))]))
   \<and> \<not> starts_ws (trim (input st)) \<and> \<not> ends_ws (trim (input st))"
  by (simp add: askPlan_sent not_starts_ws_trim not_ends_ws_trim normalized_plan_request)

text \<open>The input \<open>hi\<close> between two spaces and one: the request carries \<open>hi\<close>.\<close>

theorem askPlan_sends_trimmed_witness:
  "(\<exists>req. drop (length (sent empty_world))
            (sent (snd (askPlan (Rejected unreachable) (typed (ascii ''  hi '') JNull)
                          empty_world))) = [req]
      \<and> req_body req = Some (JObj [(ascii ''user_input'', JStr (ascii ''hi''))]))
   \<and> \<not> starts_ws (ascii ''hi'') \<and> \<not> ends_ws (ascii ''hi'')"
proof -
  let ?st = "typed (ascii ''  hi '') JNull"
  have t: "trim (input ?st) = ascii ''hi''"
    by (simp add: typed_def trim_hi)
  have n: "ascii ''hi'' \<noteq> []"
    by (simp add: ascii_def)
  have d: "drop (length (sent empty_world))
             (sent (snd (askPlan (Rejected unreachable) ?st empty_world)))
       = [normalized (plan_request (API_BASE (vite_api_base empty_world)) (ascii ''hi'')
                        (convId ?st))]"
    using n by (simp add: askPlan_sent typed_def trim_hi accepted_absent)
  from askPlan_sends_trimmed [of empty_world "Rejected unreachable" ?st] t d
  show ?thesis by simp
qed

text \<open>
  C10. The component's identifier and the stored \<open>conv_id\<close> are in agreement after the
  initial mount, after \<open>resetConversation\<close> and after \<open>newConversation\<close>, from any state;
  \<open>askPlan\<close> keeps them in agreement, changing both or neither; and so they agree after
  every sequence of operations that follows the loading of the page. Identifiers in
  responses are strings, as the interface declares them.
\<close>

theorem ids_in_agreement:
  "in_agreement (mount_effect e (initial w) w)
   \<and> in_agreement (resetConversation e st w)
   \<and> in_agreement (newConversation st w)
   \<and> (in_agreement (st, w) \<and> string_id (Send outcome) \<longrightarrow> in_agreement (askPlan outcome st w))
   \<and> (list_all string_id evs \<longrightarrow> in_agreement (run (Load e # evs) s))"
proof -
  have "list_all string_id evs \<longrightarrow> in_agreement (run (Load e # evs) s)"
    by (cases s) (simp add: agree_run agree_mount)
  then show ?thesis
    by (simp add: agree_mount agree_reset agree_new agree_askPlan)
qed

text \<open>
  A first visit: the page is loaded, a turn is answered with \<open>c-1\<close>, the conversation is
  reset, a turn fails, and the conversation is dropped.
\<close>

theorem ids_in_agreement_witness:
  "in_agreement (typed (ascii ''hello'') JNull, empty_world)
   \<and> string_id (Send (Resolved (response_200 (Inr (envelope (ascii ''c-1'') JNull JNull)))))
   \<and> list_all string_id
        [Typed (ascii ''hello''),
         Send (Resolved (response_200 (Inr (envelope (ascii ''c-1'') JNull JNull)))),
         Reset some_entropy, Send (Rejected unreachable), NewConversation]
   \<and> in_agreement (askPlan (Resolved (response_200 (Inr (envelope (ascii ''c-1'') JNull JNull))))
                      (typed (ascii ''hello'') JNull) empty_world)
   \<and> in_agreement
        (run (Load some_entropy #
              [Typed (ascii ''hello''),
               Send (Resolved (response_200 (Inr (envelope (ascii ''c-1'') JNull JNull)))),
               Reset some_entropy, Send (Rejected unreachable), NewConversation])
           (typed [] JNull, empty_world))"
proof -
  let ?out = "Resolved (response_200 (Inr (envelope (ascii ''c-1'') JNull JNull)))"
  let ?evs = "[Typed (ascii ''hello''), Send ?out, Reset some_entropy,
               Send (Rejected unreachable), NewConversation]"
  have 1: "in_agreement (typed (ascii ''hello'') JNull, empty_world)"
    by (simp add: in_agreement_def typed_def empty_world_def)
  have 2: "string_id (Send ?out)"
    by (simp add: returned_id_200)
  have 3: "list_all string_id ?evs"
    by (simp add: returned_id_200 returned_id_rejected)
  from ids_in_agreement
         [of some_entropy empty_world "typed (ascii ''hello'') JNull" ?out ?evs
             "(typed [] JNull, empty_world)"]
       1 2 3
  show ?thesis by blast
qed

end
